theory Spec2Isabelle
  imports Complex_Main
begin

section \<open>Values the callbacks handle\<close>

text \<open>
  A monitored metric is a Python float. The callbacks never do arithmetic on it, they only
  compare it, so a finite float is modelled by the real number it denotes; the two infinities
  (\<open>np.Inf\<close>, \<open>-np.Inf\<close>) and NaN are values of their own.
\<close>

datatype pyfloat = NaN | NegInf | Fin real | PosInf

text \<open>\<open>np.less\<close> on two floats: the IEEE comparison, false as soon as one side is NaN.\<close>

fun np_less :: "pyfloat \<Rightarrow> pyfloat \<Rightarrow> bool" where
  "np_less NaN y = False"
| "np_less x NaN = False"
| "np_less NegInf NegInf = False"
| "np_less NegInf y = True"
| "np_less (Fin a) NegInf = False"
| "np_less (Fin a) (Fin b) = (a < b)"
| "np_less (Fin a) PosInf = True"
| "np_less PosInf y = False"

text \<open>\<open>np.greater\<close> is the same comparison with the sides exchanged.\<close>

definition np_greater :: "pyfloat \<Rightarrow> pyfloat \<Rightarrow> bool" where
  "np_greater x y = np_less y x"

text \<open>
  An entry of \<open>trainer.callback_metrics\<close> is a plain number or a one-element
  \<open>torch.Tensor\<close>; \<open>item\<close> is what \<open>current.item()\<close> does under the
  \<open>isinstance(current, torch.Tensor)\<close> test, and leaves a plain number as it is.
\<close>

datatype logged = Tensor pyfloat | Plain pyfloat

fun item :: "logged \<Rightarrow> pyfloat" where
  "item (Tensor x) = x"
| "item (Plain x) = x"

datatype py_error = ValueError string | RuntimeError string | AttributeError string

text \<open>
  What a callback prints: \<open>warnings.warn(msg, RuntimeWarning)\<close> under Python's default
  warning filter, and \<open>rank_zero_info\<close>, whose message is kept as the epoch and the metric
  name it is formatted from.
\<close>

datatype log_event = RuntimeWarning string | RankZeroInfo int string

section \<open>Tensors in memory\<close>

text \<open>
  Tensors live in a store: address \<open>a\<close> holds the contents \<open>h ! a\<close>, and a new tensor is
  allocated at the end. A state dict (an \<open>OrderedDict\<close> from parameter names to tensors)
  is a list of names with the addresses of their tensors, so two state dicts can share a
  tensor or not.
\<close>

type_synonym addr = nat
type_synonym 't heap = "'t list"
type_synonym state_dict = "(string \<times> addr) list"

text \<open>
  \<open>copy.deepcopy\<close> of a state dict: every entry gets a newly allocated tensor with the
  contents of the original, under the same name and in the same order.
\<close>

definition deepcopy :: "state_dict \<Rightarrow> 't heap \<Rightarrow> state_dict \<times> 't heap" where
  "deepcopy sd h =
     (zip (map fst sd) [length h ..< length h + length sd], h @ map (\<lambda>(k, a). h ! a) sd)"

text \<open>
  \<open>pl_module.model\<close> is any object with the two methods the callback calls.
  \<open>load_state_dict\<close> receives whatever the callback passes, which in Python may be
  \<open>None\<close>; it returns the store it leaves, or the exception it raises.
\<close>

record 't model_obj =
  state_dict :: "'t heap \<Rightarrow> state_dict"
  load_state_dict :: "state_dict option \<Rightarrow> 't heap \<Rightarrow> py_error + 't heap"

record 't pl_module =
  model :: "'t model_obj"

record 'dl trainer =
  callback_metrics :: "string \<rightharpoonup> logged"
  current_epoch :: int
  train_dataloader :: 'dl

section \<open>SaveBestState\<close>

record SaveBestState =
  monitor :: string
  verbose :: bool
  period :: int
  epochs_since_last_check :: int
  best_model_state :: "state_dict option"
  monitor_op :: "pyfloat \<Rightarrow> pyfloat \<Rightarrow> bool"
  best_model_metric_val :: pyfloat
  mode :: string

text \<open>\<open>self.monitor.startswith(p)\<close> and \<open>sub in self.monitor\<close>.\<close>

fun startswith :: "string \<Rightarrow> string \<Rightarrow> bool" where
  "startswith s [] = True"
| "startswith [] (p # ps) = False"
| "startswith (c # cs) (p # ps) = (c = p \<and> startswith cs ps)"

fun str_in :: "string \<Rightarrow> string \<Rightarrow> bool" where
  "str_in sub [] = (sub = [])"
| "str_in sub (c # cs) = (startswith (c # cs) sub \<or> str_in sub cs)"

text \<open>
  \<open>SaveBestState.__init__\<close>. The fields are set in the order of the source; the three-way
  branch on \<open>mode\<close> is kept with its \<open>else\<close> part.
\<close>

definition SaveBestState_init :: "string \<Rightarrow> string \<Rightarrow> bool \<Rightarrow> int \<Rightarrow> py_error + SaveBestState" where
  "SaveBestState_init monitor_arg mode_arg verbose_arg period_arg =
     (if mode_arg \<notin> set [''min'', ''max'']
      then Inl (ValueError (''SaveBestState mode '' @ mode_arg @ '' is unknown''))
      else if mode_arg = ''min''
      then Inr \<lparr>monitor = monitor_arg, verbose = verbose_arg, period = period_arg,
                epochs_since_last_check = 0, best_model_state = None,
                monitor_op = np_less, best_model_metric_val = PosInf, mode = ''min''\<rparr>
      else if mode_arg = ''max''
      then Inr \<lparr>monitor = monitor_arg, verbose = verbose_arg, period = period_arg,
                epochs_since_last_check = 0, best_model_state = None,
                monitor_op = np_greater, best_model_metric_val = NegInf, mode = ''max''\<rparr>
      else if str_in ''acc'' monitor_arg \<or> startswith monitor_arg ''fmeasure''
      then Inr \<lparr>monitor = monitor_arg, verbose = verbose_arg, period = period_arg,
                epochs_since_last_check = 0, best_model_state = None,
                monitor_op = np_greater, best_model_metric_val = NegInf, mode = ''max''\<rparr>
      else Inr \<lparr>monitor = monitor_arg, verbose = verbose_arg, period = period_arg,
                epochs_since_last_check = 0, best_model_state = None,
                monitor_op = np_less, best_model_metric_val = PosInf, mode = ''min''\<rparr>)"

definition check_monitor_top :: "SaveBestState \<Rightarrow> pyfloat \<Rightarrow> bool" where
  "check_monitor_top self current = monitor_op self current (best_model_metric_val self)"

text \<open>
  \<open>SaveBestState.on_epoch_end\<close>. It returns the callback, the store and what was
  printed; it raises nothing of its own.
\<close>

definition on_epoch_end ::
  "SaveBestState \<Rightarrow> 'dl trainer \<Rightarrow> 't pl_module \<Rightarrow> 't heap \<Rightarrow> SaveBestState \<times> 't heap \<times> log_event list" where
  "on_epoch_end self trainer pl_module h =
     (let logs = callback_metrics trainer;
          self1 = self\<lparr>epochs_since_last_check := epochs_since_last_check self + 1\<rparr>
      in if epochs_since_last_check self1 \<ge> period self1 then
           (let self2 = self1\<lparr>epochs_since_last_check := 0\<rparr>
            in case logs (monitor self2) of
                 None \<Rightarrow>
                   (self2, h,
                    [RuntimeWarning (''Can save best model state only with '' @ monitor self2
                                     @ '' available, skipping.'')])
               | Some logged_value \<Rightarrow>
                   (let current = item logged_value
                    in if check_monitor_top self2 current then
                         (case deepcopy (state_dict (model pl_module) h) h of
                            (copied, h') \<Rightarrow>
                              (self2\<lparr>best_model_state := Some copied,
                                     best_model_metric_val := current\<rparr>,
                               h',
                               if verbose self2
                               then [RankZeroInfo (current_epoch trainer) (monitor self2)]
                               else []))
                       else (self2, h, [])))
         else (self1, h, []))"

text \<open>\<open>SaveBestState.on_train_end\<close>: one call, with the field as it is.\<close>

definition on_train_end ::
  "SaveBestState \<Rightarrow> 'dl trainer \<Rightarrow> 't pl_module \<Rightarrow> 't heap \<Rightarrow> py_error + 't heap" where
  "on_train_end self trainer pl_module h =
     load_state_dict (model pl_module) (best_model_state self) h"

text \<open>
  \<open>torch.nn.Module\<close> as the model: its parameters are tensors in the store, and
  \<open>state_dict()\<close> hands out the parameters themselves, not copies.
  \<open>load_state_dict\<close> checks that the names of the two sides agree (the default
  \<open>strict=True\<close>) and then copies, name by name, the contents of the given tensor into the
  parameter, in place. Handed \<open>None\<close> it fails at its first use of the argument.
\<close>

fun copy_params :: "state_dict \<Rightarrow> state_dict \<Rightarrow> 't heap \<Rightarrow> 't heap" where
  "copy_params [] sd h = h"
| "copy_params ((k, a) # ps) sd h =
     copy_params ps sd (case map_of sd k of Some b \<Rightarrow> h[a := h ! b] | None \<Rightarrow> h)"

definition nn_load_state_dict ::
  "state_dict \<Rightarrow> state_dict option \<Rightarrow> 't heap \<Rightarrow> py_error + 't heap" where
  "nn_load_state_dict params arg h =
     (case arg of
        None \<Rightarrow> Inl (AttributeError ''NoneType object has no attribute copy'')
      | Some sd \<Rightarrow>
          if set (map fst sd) = set (map fst params) then Inr (copy_params params sd h)
          else Inl (RuntimeError ''Error(s) in loading state_dict''))"

definition nn_module :: "state_dict \<Rightarrow> 't model_obj" where
  "nn_module params =
     \<lparr>state_dict = (\<lambda>h. params), load_state_dict = nn_load_state_dict params\<rparr>"

text \<open>
  Between two callbacks the optimizer writes into the parameters in place: a training phase
  is a list of such writes, each to the tensor of a named parameter.
\<close>

fun optimizer_writes :: "state_dict \<Rightarrow> (string \<times> 't) list \<Rightarrow> 't heap \<Rightarrow> 't heap" where
  "optimizer_writes params [] h = h"
| "optimizer_writes params ((k, v) # ws) h =
     optimizer_writes params ws (case map_of params k of Some a \<Rightarrow> h[a := v] | None \<Rightarrow> h)"

section \<open>SubSampleLabels and the training loop\<close>

text \<open>
  Modelled from the spec: the data loader (\<open>scvi.dataloaders\<close>, absent from the sources) with
  its two operations \<open>resample_labels()\<close> and \<open>next_batch()\<close>. The loader keeps the
  instructions it has received, in order; what a redraw or a batch contains is left open.
\<close>

datatype loader_call = ResampleLabels | NextBatch

record dataloader =
  n_batches :: nat
  calls :: "loader_call list"

definition resample_labels :: "dataloader \<Rightarrow> dataloader" where
  "resample_labels dl = dl\<lparr>calls := calls dl @ [ResampleLabels]\<rparr>"

definition next_batch :: "dataloader \<Rightarrow> dataloader" where
  "next_batch dl = dl\<lparr>calls := calls dl @ [NextBatch]\<rparr>"

text \<open>
  \<open>SubSampleLabels.on_epoch_start\<close>: the call on the trainer's loader; the base class's
  \<open>on_epoch_start\<close> that follows does nothing. The method returns \<open>None\<close>, so the
  trainer it leaves is all there is to return.
\<close>

definition SubSampleLabels_on_epoch_start ::
  "dataloader trainer \<Rightarrow> 't pl_module \<Rightarrow> dataloader trainer" where
  "SubSampleLabels_on_epoch_start trainer pl_module =
     trainer\<lparr>train_dataloader := resample_labels (train_dataloader trainer)\<rparr>"

text \<open>
  Modelled from the spec: the Training Loop Driver's per-epoch sequence (the loop itself is
  absent from the sources): fire the Label Resubsampling Hook, then draw every minibatch of
  the epoch, then advance the epoch counter. Of the steps of the sequence it keeps those that
  touch the data loader and the epoch counter.
\<close>

fun draw_batches :: "nat \<Rightarrow> dataloader \<Rightarrow> dataloader" where
  "draw_batches 0 dl = dl"
| "draw_batches (Suc n) dl = draw_batches n (next_batch dl)"

definition run_epoch :: "dataloader trainer \<Rightarrow> 't pl_module \<Rightarrow> dataloader trainer" where
  "run_epoch trainer pl_module =
     (let t1 = SubSampleLabels_on_epoch_start trainer pl_module;
          dl = train_dataloader t1;
          t2 = t1\<lparr>train_dataloader := draw_batches (n_batches dl) dl\<rparr>
      in t2\<lparr>current_epoch := current_epoch t2 + 1\<rparr>)"

fun run_epochs :: "nat \<Rightarrow> dataloader trainer \<Rightarrow> 't pl_module \<Rightarrow> dataloader trainer" where
  "run_epochs 0 trainer pl_module = trainer"
| "run_epochs (Suc n) trainer pl_module = run_epochs n (run_epoch trainer pl_module) pl_module"

section \<open>KL annealing\<close>

text \<open>
  Modelled from the spec: the KL Annealing Scheduler (the trainer that computes
  \<open>kl_weight\<close> is absent from the sources; only its test is there). If the warmup length
  is unset or zero the weight is 1.0, else it is min(1.0, elapsed / warmup_length).
\<close>

definition kl_weight :: "nat option \<Rightarrow> nat \<Rightarrow> real" where
  "kl_weight warmup_length elapsed =
     (case warmup_length of
        None \<Rightarrow> 1
      | Some w \<Rightarrow> if w = 0 then 1 else min 1 (real elapsed / real w))"

section \<open>SpatialStereoscope\<close>

text \<open>
  The part of an \<open>AnnData\<close> object the constructor touches: the number of observations
  and the columns of \<open>obs\<close>; \<open>uns\<close> stands for everything else the object holds, in
  particular what \<open>setup_anndata\<close> has put there, or nothing when the object was never set
  up. The caller and the constructor hold the same object, so the object the constructor
  leaves is the one the caller sees afterwards, whether the constructor returns or raises.
\<close>

datatype column = IntCol "int list" | StrCol "string list"







section \<open>Facts about the store\<close>

lemma length_copy_params [simp]: "length (copy_params ps sd h) = length h"
  by (induction ps arbitrary: h) (auto split: option.splits)

lemma copy_params_frame: "b \<notin> snd ` set ps \<Longrightarrow> copy_params ps sd h ! b = h ! b"
proof (induction ps arbitrary: h)
  case Nil
  then show ?case by simp
next
  case (Cons p ps)
  obtain k a where p: "p = (k, a)" by (cases p)
  from Cons.prems p have ne: "b \<noteq> a" and rest: "b \<notin> snd ` set ps" by auto
  show ?case
    using Cons.IH [OF rest] ne p by (simp split: option.splits)
qed

lemma length_optimizer_writes [simp]: "length (optimizer_writes ps ws h) = length h"
  by (induction ws arbitrary: h) (auto split: option.splits)

lemma optimizer_writes_frame:
  "b \<notin> snd ` set ps \<Longrightarrow> optimizer_writes ps ws h ! b = h ! b"
proof (induction ws arbitrary: h)
  case Nil
  then show ?case by simp
next
  case (Cons w ws)
  obtain k v where w: "w = (k, v)" by (cases w)
  show ?case
  proof (cases "map_of ps k")
    case None
    with Cons w show ?thesis by simp
  next
    case (Some a)
    then have "(k, a) \<in> set ps" by (rule map_of_SomeD)
    then have "a \<in> snd ` set ps" by force
    with Cons.prems have "b \<noteq> a" by auto
    with Cons w Some show ?thesis by simp
  qed
qed

lemma copy_params_value:
  assumes "\<forall>(k, a) \<in> set ps. a < length h \<and> (\<exists>b. map_of sd k = Some b \<and> b \<notin> L \<and> h ! b = g a)"
      and "snd ` set ps \<subseteq> L"
  shows "\<forall>(k, a) \<in> set ps. copy_params ps sd h ! a = g a"
  using assms
proof (induction ps arbitrary: h)
  case Nil
  then show ?case by simp
next
  case (Cons p ps)
  obtain k a where p: "p = (k, a)" by (cases p)
  from Cons.prems(1) p obtain b where
    a: "a < length h" and b: "map_of sd k = Some b" "b \<notin> L" "h ! b = g a"
    by auto
  from Cons.prems(2) p have aL: "a \<in> L" and sub: "snd ` set ps \<subseteq> L" by auto
  let ?h1 = "h[a := h ! b]"
  have pre: "\<forall>(k', a') \<in> set ps.
      a' < length ?h1 \<and> (\<exists>b'. map_of sd k' = Some b' \<and> b' \<notin> L \<and> ?h1 ! b' = g a')"
  proof (clarify)
    fix k' a' assume "(k', a') \<in> set ps"
    with Cons.prems(1) obtain b' where
      "a' < length h" "map_of sd k' = Some b'" "b' \<notin> L" "h ! b' = g a'"
      by auto
    moreover from this aL have "b' \<noteq> a" by auto
    ultimately show "a' < length ?h1 \<and> (\<exists>b'. map_of sd k' = Some b' \<and> b' \<notin> L \<and> ?h1 ! b' = g a')"
      by simp
  qed
  have IH: "\<forall>(k', a') \<in> set ps. copy_params ps sd ?h1 ! a' = g a'"
    by (rule Cons.IH [OF pre sub])
  have step: "copy_params (p # ps) sd h = copy_params ps sd ?h1"
    using p b by simp
  have head: "copy_params ps sd ?h1 ! a = g a"
  proof (cases "a \<in> snd ` set ps")
    case True
    then obtain k' where "(k', a) \<in> set ps" by force
    with IH show ?thesis by auto
  next
    case False
    then have "copy_params ps sd ?h1 ! a = ?h1 ! a" by (rule copy_params_frame)
    also have "\<dots> = g a" using a b by simp
    finally show ?thesis .
  qed
  show ?case
    unfolding step using IH head p by auto
qed

lemma deepcopy_names: "map fst (fst (deepcopy sd h)) = map fst sd"
  by (simp add: deepcopy_def)

lemma deepcopy_addrs: "map snd (fst (deepcopy sd h)) = [length h ..< length h + length sd]"
  by (simp add: deepcopy_def)

lemma deepcopy_lookup:
  assumes "distinct (map fst sd)" and "i < length sd"
  shows "map_of (fst (deepcopy sd h)) (fst (sd ! i)) = Some (length h + i)"
proof -
  have "map_of (zip (map fst sd) [length h ..< length h + length sd]) (map fst sd ! i)
          = Some ([length h ..< length h + length sd] ! i)"
    using assms by (intro map_of_zip_nth) simp_all
  with assms(2) show ?thesis by (simp add: deepcopy_def)
qed

lemma deepcopy_contents:
  assumes "i < length sd"
  shows "snd (deepcopy sd h) ! (length h + i) = h ! snd (sd ! i)"
  using assms by (simp add: deepcopy_def nth_append case_prod_beta)

lemma deepcopy_keeps: "a < length h \<Longrightarrow> snd (deepcopy sd h) ! a = h ! a"
  by (simp add: deepcopy_def nth_append)

lemma length_deepcopy: "length (snd (deepcopy sd h)) = length h + length sd"
  by (simp add: deepcopy_def)

section \<open>Facts about the monitor and the loop\<close>

lemma check_monitor_top_counter [simp]:
  "check_monitor_top (self\<lparr>epochs_since_last_check := n\<rparr>) current = check_monitor_top self current"
  by (simp add: check_monitor_top_def)

lemma SaveBestState_init_consistent:
  assumes "SaveBestState_init monitor_arg mode_arg verbose_arg period_arg = Inr self"
  shows "mode self = ''min'' \<and> monitor_op self = np_less
         \<or> mode self = ''max'' \<and> monitor_op self = np_greater"
  using assms by (auto simp add: SaveBestState_init_def split: if_splits)

lemma on_epoch_end_consistent:
  assumes "on_epoch_end self trainer pl_module h = (self', h', out)"
  shows "mode self' = mode self \<and> monitor_op self' = monitor_op self
         \<and> monitor self' = monitor self \<and> period self' = period self
         \<and> verbose self' = verbose self"
  using assms
  by (auto simp add: on_epoch_end_def Let_def split: if_splits option.splits prod.splits)

lemma calls_draw_batches: "calls (draw_batches k dl) = calls dl @ replicate k NextBatch"
  by (induction k arbitrary: dl) (simp_all add: next_batch_def replicate_app_Cons_same)

lemma n_batches_draw_batches: "n_batches (draw_batches k dl) = n_batches dl"
  by (induction k arbitrary: dl) (simp_all add: next_batch_def)

lemma calls_run_epoch:
  "calls (train_dataloader (run_epoch trainer pl_module))
     = calls (train_dataloader trainer)
       @ ResampleLabels # replicate (n_batches (train_dataloader trainer)) NextBatch"
  by (simp add: run_epoch_def Let_def SubSampleLabels_on_epoch_start_def resample_labels_def
        calls_draw_batches)

lemma n_batches_run_epoch:
  "n_batches (train_dataloader (run_epoch trainer pl_module)) = n_batches (train_dataloader trainer)"
  by (simp add: run_epoch_def Let_def SubSampleLabels_on_epoch_start_def resample_labels_def
        n_batches_draw_batches)

lemma calls_run_epochs:
  "calls (train_dataloader (run_epochs n trainer pl_module))
     = calls (train_dataloader trainer)
       @ concat (replicate n
           (ResampleLabels # replicate (n_batches (train_dataloader trainer)) NextBatch))"
  by (induction n arbitrary: trainer) (simp_all add: calls_run_epoch n_batches_run_epoch)

section \<open>Construction\<close>

text \<open>
  C5. A mode other than "min" and "max" makes the constructor raise ValueError; mode "min"
  starts the monitor at plus infinity with the less-than operator, mode "max" at minus
  infinity with the greater-than operator.
\<close>

theorem SaveBestState_init_modes:
  "(mode_arg \<noteq> ''min'' \<and> mode_arg \<noteq> ''max'' \<longrightarrow>
      SaveBestState_init monitor_arg mode_arg verbose_arg period_arg
        = Inl (ValueError (''SaveBestState mode '' @ mode_arg @ '' is unknown'')))
   \<and> (\<exists>self. SaveBestState_init monitor_arg ''min'' verbose_arg period_arg = Inr self
         \<and> best_model_metric_val self = PosInf \<and> monitor_op self = np_less
         \<and> mode self = ''min'')
   \<and> (\<exists>self. SaveBestState_init monitor_arg ''max'' verbose_arg period_arg = Inr self
         \<and> best_model_metric_val self = NegInf \<and> monitor_op self = np_greater
         \<and> mode self = ''max'')"
  by (simp add: SaveBestState_init_def)

theorem SaveBestState_init_modes_witness:
  "''median'' \<noteq> ''min'' \<and> ''median'' \<noteq> ''max''
   \<and> SaveBestState_init ''elbo_validation'' ''median'' False 1
       = Inl (ValueError ''SaveBestState mode median is unknown'')"
  using SaveBestState_init_modes [of "''median''" "''elbo_validation''" False 1]
  by simp

text \<open>
  C8. The \<open>else\<close> part of the constructor's branch on the mode, which would choose the
  operator from the monitor's name, is never taken: the constructor is the function that
  raises for a mode outside "min" and "max" and otherwise takes one of the first two
  branches, and the operator, the starting value and the mode it stores are the same for
  any two monitor names.
\<close>

theorem SaveBestState_init_fallback_unreachable:
  "SaveBestState_init monitor_arg mode_arg verbose_arg period_arg =
     (if mode_arg = ''min''
      then Inr \<lparr>monitor = monitor_arg, verbose = verbose_arg, period = period_arg,
                epochs_since_last_check = 0, best_model_state = None,
                monitor_op = np_less, best_model_metric_val = PosInf, mode = ''min''\<rparr>
      else if mode_arg = ''max''
      then Inr \<lparr>monitor = monitor_arg, verbose = verbose_arg, period = period_arg,
                epochs_since_last_check = 0, best_model_state = None,
                monitor_op = np_greater, best_model_metric_val = NegInf, mode = ''max''\<rparr>
      else Inl (ValueError (''SaveBestState mode '' @ mode_arg @ '' is unknown'')))
   \<and> map_sum id (\<lambda>self. (monitor_op self, best_model_metric_val self, mode self))
         (SaveBestState_init monitor_arg mode_arg verbose_arg period_arg)
     = map_sum id (\<lambda>self. (monitor_op self, best_model_metric_val self, mode self))
         (SaveBestState_init other_monitor mode_arg verbose_arg period_arg)"
  by (simp add: SaveBestState_init_def)

section \<open>The monitor at the end of an epoch\<close>

text \<open>
  C2. Every call of \<open>on_epoch_end\<close> adds one to \<open>epochs_since_last_check\<close>. While the
  new count is below \<open>period\<close> nothing else changes. Once it has reached \<open>period\<close> the
  count is set back to 0 and the logged value is compared with \<open>best_model_metric_val\<close>,
  by less-than in mode "min" and by greater-than in mode "max"; exactly when the comparison
  holds, the value becomes the new best and a copy of the model's state dict is stored.
\<close>

theorem on_epoch_end_record:
  assumes "mode self = ''min'' \<and> monitor_op self = np_less
           \<or> mode self = ''max'' \<and> monitor_op self = np_greater"
      and "on_epoch_end self trainer pl_module h = (self', h', out)"
  shows "(epochs_since_last_check self + 1 < period self \<longrightarrow>
            self' = self\<lparr>epochs_since_last_check := epochs_since_last_check self + 1\<rparr>
            \<and> h' = h \<and> out = [])
         \<and> (period self \<le> epochs_since_last_check self + 1 \<longrightarrow>
              epochs_since_last_check self' = 0
              \<and> (\<forall>v. callback_metrics trainer (monitor self) = Some v \<longrightarrow>
                   (if (if mode self = ''min''
                        then np_less (item v) (best_model_metric_val self)
                        else np_less (best_model_metric_val self) (item v))
                    then best_model_metric_val self' = item v
                         \<and> best_model_state self'
                             = Some (fst (deepcopy (state_dict (model pl_module) h) h))
                         \<and> h' = snd (deepcopy (state_dict (model pl_module) h) h)
                    else best_model_metric_val self' = best_model_metric_val self
                         \<and> best_model_state self' = best_model_state self
                         \<and> h' = h)))"
  using assms
  by (auto simp add: on_epoch_end_def Let_def check_monitor_top_def np_greater_def
           split: option.splits prod.splits if_splits)

theorem on_epoch_end_record_witness:
  "on_epoch_end
      \<lparr>monitor = ''elbo_validation'', verbose = False, period = 1,
       epochs_since_last_check = 0, best_model_state = None,
       monitor_op = np_less, best_model_metric_val = PosInf, mode = ''min''\<rparr>
      \<lparr>callback_metrics = [''elbo_validation'' \<mapsto> Tensor (Fin 2)], current_epoch = 0,
       train_dataloader = ()\<rparr>
      \<lparr>model = nn_module [(''w'', 0)]\<rparr> [7 :: nat, 8]
    = (\<lparr>monitor = ''elbo_validation'', verbose = False, period = 1,
        epochs_since_last_check = 0, best_model_state = Some [(''w'', 2)],
        monitor_op = np_less, best_model_metric_val = Fin 2, mode = ''min''\<rparr>,
       [7, 8, 7], [])
   \<and> np_less (Fin 2) PosInf"
proof -
  have call: "on_epoch_end
      \<lparr>monitor = ''elbo_validation'', verbose = False, period = 1,
       epochs_since_last_check = 0, best_model_state = None,
       monitor_op = np_less, best_model_metric_val = PosInf, mode = ''min''\<rparr>
      \<lparr>callback_metrics = [''elbo_validation'' \<mapsto> Tensor (Fin 2)], current_epoch = 0,
       train_dataloader = ()\<rparr>
      \<lparr>model = nn_module [(''w'', 0)]\<rparr> [7 :: nat, 8]
    = (\<lparr>monitor = ''elbo_validation'', verbose = False, period = 1,
        epochs_since_last_check = 0, best_model_state = Some [(''w'', 2)],
        monitor_op = np_less, best_model_metric_val = Fin 2, mode = ''min''\<rparr>,
       [7, 8, 7], [])"
    by (simp add: on_epoch_end_def check_monitor_top_def deepcopy_def nn_module_def)
  have consistent: "mode \<lparr>monitor = ''elbo_validation'', verbose = False, period = 1,
       epochs_since_last_check = 0, best_model_state = None,
       monitor_op = np_less, best_model_metric_val = PosInf, mode = ''min''\<rparr> = ''min''
     \<and> monitor_op \<lparr>monitor = ''elbo_validation'', verbose = False, period = 1,
       epochs_since_last_check = 0, best_model_state = None,
       monitor_op = np_less, best_model_metric_val = PosInf, mode = ''min''\<rparr> = np_less
     \<or> mode \<lparr>monitor = ''elbo_validation'', verbose = False, period = 1,
       epochs_since_last_check = 0, best_model_state = None,
       monitor_op = np_less, best_model_metric_val = PosInf, mode = ''min''\<rparr> = ''max''
     \<and> monitor_op \<lparr>monitor = ''elbo_validation'', verbose = False, period = 1,
       epochs_since_last_check = 0, best_model_state = None,
       monitor_op = np_less, best_model_metric_val = PosInf, mode = ''min''\<rparr> = np_greater"
    by simp
  from on_epoch_end_record [OF consistent call] call show ?thesis
    by simp
qed

text \<open>
  C9. A call before the check interval has elapsed changes no field but
  \<open>epochs_since_last_check\<close>; the same holds for an evaluating call whose metric is missing
  or is no improvement, where the count goes back to 0. The store is untouched in all three
  cases.
\<close>

theorem on_epoch_end_frame:
  "(epochs_since_last_check self + 1 < period self \<longrightarrow>
      on_epoch_end self trainer pl_module h
        = (self\<lparr>epochs_since_last_check := epochs_since_last_check self + 1\<rparr>, h, []))
   \<and> (period self \<le> epochs_since_last_check self + 1
        \<and> callback_metrics trainer (monitor self) = None \<longrightarrow>
      fst (on_epoch_end self trainer pl_module h) = self\<lparr>epochs_since_last_check := 0\<rparr>
      \<and> fst (snd (on_epoch_end self trainer pl_module h)) = h)
   \<and> (\<forall>v. period self \<le> epochs_since_last_check self + 1
        \<and> callback_metrics trainer (monitor self) = Some v
        \<and> \<not> check_monitor_top self (item v) \<longrightarrow>
      on_epoch_end self trainer pl_module h = (self\<lparr>epochs_since_last_check := 0\<rparr>, h, []))"
  by (simp add: on_epoch_end_def Let_def)

theorem on_epoch_end_frame_witness:
  "epochs_since_last_check
      \<lparr>monitor = ''elbo_validation'', verbose = True, period = 3,
       epochs_since_last_check = 0, best_model_state = Some [(''w'', 1)],
       monitor_op = np_less, best_model_metric_val = Fin 4, mode = ''min''\<rparr> + 1
    < period
      \<lparr>monitor = ''elbo_validation'', verbose = True, period = 3,
       epochs_since_last_check = 0, best_model_state = Some [(''w'', 1)],
       monitor_op = np_less, best_model_metric_val = Fin 4, mode = ''min''\<rparr>
   \<and> on_epoch_end
      \<lparr>monitor = ''elbo_validation'', verbose = True, period = 3,
       epochs_since_last_check = 0, best_model_state = Some [(''w'', 1)],
       monitor_op = np_less, best_model_metric_val = Fin 4, mode = ''min''\<rparr>
      \<lparr>callback_metrics = [''elbo_validation'' \<mapsto> Plain (Fin 1)], current_epoch = 5,
       train_dataloader = ()\<rparr>
      \<lparr>model = nn_module [(''w'', 0)]\<rparr> [7 :: nat, 9]
    = (\<lparr>monitor = ''elbo_validation'', verbose = True, period = 3,
        epochs_since_last_check = 1, best_model_state = Some [(''w'', 1)],
        monitor_op = np_less, best_model_metric_val = Fin 4, mode = ''min''\<rparr>,
       [7, 9], [])"
  using on_epoch_end_frame
     [of "\<lparr>monitor = ''elbo_validation'', verbose = True, period = 3,
          epochs_since_last_check = 0, best_model_state = Some [(''w'', 1)],
          monitor_op = np_less, best_model_metric_val = Fin 4, mode = ''min''\<rparr>"
         "\<lparr>callback_metrics = [''elbo_validation'' \<mapsto> Plain (Fin 1)], current_epoch = 5,
          train_dataloader = ()\<rparr>"
         "\<lparr>model = nn_module [(''w'', 0)]\<rparr>" "[7 :: nat, 9]"]
  by simp

text \<open>
  C4, as the source has it. When the monitored metric is missing from
  \<open>callback_metrics\<close> in an epoch whose check is due (the count has reached
  \<open>period\<close>), the callback warns with a RuntimeWarning, sets the count back to 0 and
  changes nothing else. In an epoch whose check is not due it only counts, without a
  warning. In both cases the best value, the stored state and the store are as before, and
  the call returns.
\<close>

theorem on_epoch_end_missing_metric:
  assumes "callback_metrics trainer (monitor self) = None"
  shows "(period self \<le> epochs_since_last_check self + 1 \<longrightarrow>
            on_epoch_end self trainer pl_module h
              = (self\<lparr>epochs_since_last_check := 0\<rparr>, h,
                 [RuntimeWarning (''Can save best model state only with '' @ monitor self
                                  @ '' available, skipping.'')]))
         \<and> (epochs_since_last_check self + 1 < period self \<longrightarrow>
              on_epoch_end self trainer pl_module h
                = (self\<lparr>epochs_since_last_check := epochs_since_last_check self + 1\<rparr>, h, []))
         \<and> best_model_metric_val (fst (on_epoch_end self trainer pl_module h))
             = best_model_metric_val self
         \<and> best_model_state (fst (on_epoch_end self trainer pl_module h))
             = best_model_state self
         \<and> fst (snd (on_epoch_end self trainer pl_module h)) = h"
  using assms by (simp add: on_epoch_end_def Let_def)

theorem on_epoch_end_missing_metric_witness:
  "callback_metrics
      \<lparr>callback_metrics = Map.empty, current_epoch = 0, train_dataloader = ()\<rparr>
      (monitor
        \<lparr>monitor = ''elbo_validation'', verbose = False, period = 1,
         epochs_since_last_check = 0, best_model_state = None,
         monitor_op = np_less, best_model_metric_val = PosInf, mode = ''min''\<rparr>) = None
   \<and> on_epoch_end
        \<lparr>monitor = ''elbo_validation'', verbose = False, period = 1,
         epochs_since_last_check = 0, best_model_state = None,
         monitor_op = np_less, best_model_metric_val = PosInf, mode = ''min''\<rparr>
        \<lparr>callback_metrics = Map.empty, current_epoch = 0, train_dataloader = ()\<rparr>
        \<lparr>model = nn_module [(''w'', 0)]\<rparr> [7 :: nat]
      = (\<lparr>monitor = ''elbo_validation'', verbose = False, period = 1,
          epochs_since_last_check = 0, best_model_state = None,
          monitor_op = np_less, best_model_metric_val = PosInf, mode = ''min''\<rparr>,
         [7],
         [RuntimeWarning ''Can save best model state only with elbo_validation available, skipping.''])"
  using on_epoch_end_missing_metric
     [of "\<lparr>callback_metrics = Map.empty, current_epoch = 0, train_dataloader = ()\<rparr>"
         "\<lparr>monitor = ''elbo_validation'', verbose = False, period = 1,
          epochs_since_last_check = 0, best_model_state = None,
          monitor_op = np_less, best_model_metric_val = PosInf, mode = ''min''\<rparr>"
         "\<lparr>model = nn_module [(''w'', 0)]\<rparr>" "[7 :: nat]"]
  by simp

text \<open>
  With \<open>period = 2\<close> the first epoch is not a check: the metric is missing and no warning
  is given.
\<close>

theorem on_epoch_end_missing_metric_unwarned:
  "callback_metrics
      \<lparr>callback_metrics = Map.empty, current_epoch = 0, train_dataloader = ()\<rparr>
      (monitor
        \<lparr>monitor = ''elbo_validation'', verbose = False, period = 2,
         epochs_since_last_check = 0, best_model_state = None,
         monitor_op = np_less, best_model_metric_val = PosInf, mode = ''min''\<rparr>) = None
   \<and> on_epoch_end
        \<lparr>monitor = ''elbo_validation'', verbose = False, period = 2,
         epochs_since_last_check = 0, best_model_state = None,
         monitor_op = np_less, best_model_metric_val = PosInf, mode = ''min''\<rparr>
        \<lparr>callback_metrics = Map.empty, current_epoch = 0, train_dataloader = ()\<rparr>
        \<lparr>model = nn_module [(''w'', 0)]\<rparr> [7 :: nat]
      = (\<lparr>monitor = ''elbo_validation'', verbose = False, period = 2,
          epochs_since_last_check = 1, best_model_state = None,
          monitor_op = np_less, best_model_metric_val = PosInf, mode = ''min''\<rparr>,
         [7], [])"
  by (simp add: on_epoch_end_def)

section \<open>Capture and restore\<close>

text \<open>
  C1, evaluated at a callback that never captured a state. The constructor leaves
  \<open>best_model_state\<close> at \<open>None\<close>, an epoch without the metric keeps it there, and
  \<open>on_train_end\<close> then hands \<open>None\<close> to the model's \<open>load_state_dict\<close> without a
  check of its own: what happens is what the model does with \<open>None\<close>. With a model
  that accepts it the call returns and the parameters stay as they were; with
  \<open>torch.nn.Module\<close> the only failure is the one inside \<open>load_state_dict\<close>.
\<close>

theorem on_train_end_absent_state:
  "\<exists>self0.
      SaveBestState_init ''elbo_validation'' ''min'' False 1 = Inr self0
      \<and> best_model_state self0 = None
      \<and> on_epoch_end self0
            \<lparr>callback_metrics = Map.empty, current_epoch = 0, train_dataloader = ()\<rparr>
            \<lparr>model = nn_module [(''w'', 0)]\<rparr> [7 :: nat]
          = (self0, [7],
             [RuntimeWarning ''Can save best model state only with elbo_validation available, skipping.''])
      \<and> (\<forall>(trainer :: unit trainer) (pl_module :: nat pl_module) h.
            on_train_end self0 trainer pl_module h = load_state_dict (model pl_module) None h)
      \<and> on_train_end self0
            \<lparr>callback_metrics = Map.empty, current_epoch = 1, train_dataloader = ()\<rparr>
            \<lparr>model = \<lparr>state_dict = (\<lambda>h. [(''w'', 0)]), load_state_dict = (\<lambda>arg h. Inr h)\<rparr>\<rparr>
            [7 :: nat]
          = Inr [7]
      \<and> on_train_end self0
            \<lparr>callback_metrics = Map.empty, current_epoch = 1, train_dataloader = ()\<rparr>
            \<lparr>model = nn_module [(''w'', 0)]\<rparr> [7 :: nat]
          = Inl (AttributeError ''NoneType object has no attribute copy'')"
  by (simp add: SaveBestState_init_def on_epoch_end_def on_train_end_def nn_module_def
        nn_load_state_dict_def)

text \<open>
  C3. Let the model be a module with distinct parameter names whose tensors are in the
  store, and let a call of \<open>on_epoch_end\<close> find an improvement. Then the callback holds a
  state dict with the names of all parameters, whose tensors are none of the parameters'
  tensors and hold the contents the parameters have at that moment; the call leaves the
  parameters as they are. Whatever the optimizer then writes into the parameters, the stored
  tensors keep those contents, \<open>on_train_end\<close> succeeds, and after it every parameter holds
  the contents it had when the state was captured, equal to the stored tensor's. Whatever
  state was stored before the improving call is replaced.
\<close>

theorem best_state_round_trip:
  assumes names: "distinct (map fst params)"
      and live: "\<forall>a \<in> set (map snd params). a < length h"
      and due: "period self \<le> epochs_since_last_check self + 1"
      and logged: "callback_metrics trainer (monitor self) = Some v"
      and better: "check_monitor_top self (item v)"
      and call: "on_epoch_end self trainer \<lparr>model = nn_module params\<rparr> h = (self', h', out)"
  shows "\<exists>snapshot.
           best_model_state self' = Some snapshot
           \<and> map fst snapshot = map fst params
           \<and> set (map snd snapshot) \<inter> set (map snd params) = {}
           \<and> map (\<lambda>(k, b). h' ! b) snapshot = map (\<lambda>(k, a). h ! a) params
           \<and> map (\<lambda>(k, a). h' ! a) params = map (\<lambda>(k, a). h ! a) params
           \<and> (\<forall>ws. \<exists>h3.
                 on_train_end self' trainer' \<lparr>model = nn_module params\<rparr>
                     (optimizer_writes params ws h') = Inr h3
                 \<and> map (\<lambda>(k, b). optimizer_writes params ws h' ! b) snapshot
                     = map (\<lambda>(k, a). h ! a) params
                 \<and> map (\<lambda>(k, a). h3 ! a) params = map (\<lambda>(k, a). h ! a) params
                 \<and> map (\<lambda>(k, b). h3 ! b) snapshot = map (\<lambda>(k, a). h ! a) params)"
proof -
  define snapshot where "snapshot = fst (deepcopy params h)"
  have self': "best_model_state self' = Some snapshot"
    and h': "h' = snd (deepcopy params h)"
    using call due logged better
    by (auto simp add: on_epoch_end_def Let_def check_monitor_top_def nn_module_def snapshot_def
             split: prod.splits)
  have names': "map fst snapshot = map fst params"
    by (simp add: snapshot_def deepcopy_names)
  have addrs: "map snd snapshot = [length h ..< length h + length params]"
    by (simp add: snapshot_def deepcopy_addrs)
  have len: "length snapshot = length params"
    using names' by (metis length_map)
  have apart: "set (map snd snapshot) \<inter> set (map snd params) = {}"
    using live by (auto simp add: addrs)
  have nth_snap: "snapshot ! i = (fst (params ! i), length h + i)" if "i < length params" for i
  proof -
    have "fst (snapshot ! i) = map fst snapshot ! i"
      using that len by simp
    then have name: "fst (snapshot ! i) = fst (params ! i)"
      using that by (simp add: names')
    have "snd (snapshot ! i) = map snd snapshot ! i"
      using that len by simp
    then have "snd (snapshot ! i) = length h + i"
      using that by (simp add: addrs)
    with name show ?thesis by (simp add: prod_eq_iff)
  qed
  have copied: "map (\<lambda>(k, b). h' ! b) snapshot = map (\<lambda>(k, a). h ! a) params"
    by (rule nth_equalityI)
       (simp_all add: len nth_snap h' deepcopy_contents case_prod_beta)
  have kept: "map (\<lambda>(k, a). h' ! a) params = map (\<lambda>(k, a). h ! a) params"
    using live by (auto simp add: h' deepcopy_keeps)
  have later: "\<exists>h3.
        on_train_end self' trainer' \<lparr>model = nn_module params\<rparr>
            (optimizer_writes params ws h') = Inr h3
        \<and> map (\<lambda>(k, b). optimizer_writes params ws h' ! b) snapshot
            = map (\<lambda>(k, a). h ! a) params
        \<and> map (\<lambda>(k, a). h3 ! a) params = map (\<lambda>(k, a). h ! a) params
        \<and> map (\<lambda>(k, b). h3 ! b) snapshot = map (\<lambda>(k, a). h ! a) params" for ws
  proof -
    let ?h2 = "optimizer_writes params ws h'"
    let ?h3 = "copy_params params snapshot ?h2"
    have out_of_reach: "b \<notin> snd ` set params" if "b \<in> set (map snd snapshot)" for b
      using that apart by auto
    have snap_h2: "?h2 ! b = h' ! b" if "b \<in> set (map snd snapshot)" for b
      using out_of_reach [OF that] by (rule optimizer_writes_frame)
    have undisturbed: "map (\<lambda>(k, b). ?h2 ! b) snapshot = map (\<lambda>(k, a). h ! a) params"
    proof -
      have "map (\<lambda>(k, b). ?h2 ! b) snapshot = map (\<lambda>(k, b). h' ! b) snapshot"
        using snap_h2 by (auto simp add: rev_image_eqI)
      with copied show ?thesis by simp
    qed
    have run: "on_train_end self' trainer' \<lparr>model = nn_module params\<rparr> ?h2 = Inr ?h3"
      using names' by (simp add: on_train_end_def nn_module_def nn_load_state_dict_def self')
    have pre: "\<forall>(k, a) \<in> set params.
        a < length ?h2 \<and>
        (\<exists>b. map_of snapshot k = Some b \<and> b \<notin> snd ` set params \<and> ?h2 ! b = h ! a)"
    proof (clarify)
      fix k a assume ka: "(k, a) \<in> set params"
      then obtain i where i: "i < length params" "params ! i = (k, a)"
        by (auto simp add: in_set_conv_nth)
      have "a < length h" using live ka by force
      then have a: "a < length ?h2" by (simp add: h' length_deepcopy)
      have look: "map_of snapshot k = Some (length h + i)"
        using deepcopy_lookup [OF names i(1), of h] i(2) by (simp add: snapshot_def)
      have mem: "length h + i \<in> set (map snd snapshot)"
        using i(1) by (simp add: addrs)
      have "?h2 ! (length h + i) = h' ! (length h + i)"
        using mem by (rule snap_h2)
      also have "\<dots> = h ! a"
        using deepcopy_contents [OF i(1), of h] i(2) by (simp add: h')
      finally have val: "?h2 ! (length h + i) = h ! a" .
      show "a < length ?h2 \<and>
        (\<exists>b. map_of snapshot k = Some b \<and> b \<notin> snd ` set params \<and> ?h2 ! b = h ! a)"
        using a look out_of_reach [OF mem] val by blast
    qed
    have restored: "\<forall>(k, a) \<in> set params. ?h3 ! a = h ! a"
      by (rule copy_params_value [where L = "snd ` set params" and g = "\<lambda>a. h ! a", OF pre]) simp
    then have live3: "map (\<lambda>(k, a). ?h3 ! a) params = map (\<lambda>(k, a). h ! a) params"
      by auto
    have "map (\<lambda>(k, b). ?h3 ! b) snapshot = map (\<lambda>(k, b). ?h2 ! b) snapshot"
      using out_of_reach by (auto simp add: copy_params_frame rev_image_eqI)
    with undisturbed have snap3: "map (\<lambda>(k, b). ?h3 ! b) snapshot = map (\<lambda>(k, a). h ! a) params"
      by simp
    from run undisturbed live3 snap3 show ?thesis by blast
  qed
  from self' names' apart copied kept later show ?thesis by blast
qed

theorem best_state_round_trip_witness:
  "\<exists>snapshot.
      best_model_state
        \<lparr>monitor = ''elbo_validation'', verbose = False, period = 1,
         epochs_since_last_check = 0, best_model_state = Some [(''w'', 2)],
         monitor_op = np_less, best_model_metric_val = Fin 2, mode = ''min''\<rparr> = Some snapshot
      \<and> map fst snapshot = map fst [(''w'', 0 :: nat)]
      \<and> set (map snd snapshot) \<inter> set (map snd [(''w'', 0 :: nat)]) = {}
      \<and> (\<exists>h3. on_train_end
            \<lparr>monitor = ''elbo_validation'', verbose = False, period = 1,
             epochs_since_last_check = 0, best_model_state = Some [(''w'', 2)],
             monitor_op = np_less, best_model_metric_val = Fin 2, mode = ''min''\<rparr>
            \<lparr>callback_metrics = Map.empty, current_epoch = 1, train_dataloader = ()\<rparr>
            \<lparr>model = nn_module [(''w'', 0)]\<rparr>
            (optimizer_writes [(''w'', 0)] [(''w'', 5)] [7 :: nat, 8, 7]) = Inr h3
          \<and> map (\<lambda>(k, a). h3 ! a) [(''w'', 0 :: nat)] = map (\<lambda>(k, a). [7, 8] ! a) [(''w'', 0 :: nat)])"
proof -
  have call: "on_epoch_end
      \<lparr>monitor = ''elbo_validation'', verbose = False, period = 1,
       epochs_since_last_check = 0, best_model_state = None,
       monitor_op = np_less, best_model_metric_val = PosInf, mode = ''min''\<rparr>
      \<lparr>callback_metrics = [''elbo_validation'' \<mapsto> Tensor (Fin 2)], current_epoch = 0,
       train_dataloader = ()\<rparr>
      \<lparr>model = nn_module [(''w'', 0)]\<rparr> [7 :: nat, 8]
    = (\<lparr>monitor = ''elbo_validation'', verbose = False, period = 1,
        epochs_since_last_check = 0, best_model_state = Some [(''w'', 2)],
        monitor_op = np_less, best_model_metric_val = Fin 2, mode = ''min''\<rparr>,
       [7, 8, 7], [])"
    by (simp add: on_epoch_end_def check_monitor_top_def deepcopy_def nn_module_def)
  have "\<exists>snapshot.
      best_model_state
        \<lparr>monitor = ''elbo_validation'', verbose = False, period = 1,
         epochs_since_last_check = 0, best_model_state = Some [(''w'', 2)],
         monitor_op = np_less, best_model_metric_val = Fin 2, mode = ''min''\<rparr> = Some snapshot
      \<and> map fst snapshot = map fst [(''w'', 0 :: nat)]
      \<and> set (map snd snapshot) \<inter> set (map snd [(''w'', 0 :: nat)]) = {}
      \<and> map (\<lambda>(k, b). [7 :: nat, 8, 7] ! b) snapshot = map (\<lambda>(k, a). [7, 8] ! a) [(''w'', 0 :: nat)]
      \<and> map (\<lambda>(k, a). [7 :: nat, 8, 7] ! a) [(''w'', 0 :: nat)] = map (\<lambda>(k, a). [7, 8] ! a) [(''w'', 0 :: nat)]
      \<and> (\<forall>ws. \<exists>h3.
            on_train_end
              \<lparr>monitor = ''elbo_validation'', verbose = False, period = 1,
               epochs_since_last_check = 0, best_model_state = Some [(''w'', 2)],
               monitor_op = np_less, best_model_metric_val = Fin 2, mode = ''min''\<rparr>
              \<lparr>callback_metrics = Map.empty, current_epoch = 1, train_dataloader = ()\<rparr>
              \<lparr>model = nn_module [(''w'', 0)]\<rparr>
              (optimizer_writes [(''w'', 0)] ws [7 :: nat, 8, 7]) = Inr h3
            \<and> map (\<lambda>(k, b). optimizer_writes [(''w'', 0)] ws [7 :: nat, 8, 7] ! b) snapshot
                = map (\<lambda>(k, a). [7, 8] ! a) [(''w'', 0 :: nat)]
            \<and> map (\<lambda>(k, a). h3 ! a) [(''w'', 0 :: nat)] = map (\<lambda>(k, a). [7, 8] ! a) [(''w'', 0 :: nat)]
            \<and> map (\<lambda>(k, b). h3 ! b) snapshot = map (\<lambda>(k, a). [7, 8] ! a) [(''w'', 0 :: nat)])"
    by (rule best_state_round_trip [OF _ _ _ _ _ call, where v = "Tensor (Fin 2)"])
       (simp_all add: check_monitor_top_def)
  then obtain snapshot where snap:
      "best_model_state
        \<lparr>monitor = ''elbo_validation'', verbose = False, period = 1,
         epochs_since_last_check = 0, best_model_state = Some [(''w'', 2)],
         monitor_op = np_less, best_model_metric_val = Fin 2, mode = ''min''\<rparr> = Some snapshot"
      "map fst snapshot = map fst [(''w'', 0 :: nat)]"
      "set (map snd snapshot) \<inter> set (map snd [(''w'', 0 :: nat)]) = {}"
      "\<forall>ws. \<exists>h3.
            on_train_end
              \<lparr>monitor = ''elbo_validation'', verbose = False, period = 1,
               epochs_since_last_check = 0, best_model_state = Some [(''w'', 2)],
               monitor_op = np_less, best_model_metric_val = Fin 2, mode = ''min''\<rparr>
              \<lparr>callback_metrics = Map.empty, current_epoch = 1, train_dataloader = ()\<rparr>
              \<lparr>model = nn_module [(''w'', 0)]\<rparr>
              (optimizer_writes [(''w'', 0)] ws [7 :: nat, 8, 7]) = Inr h3
            \<and> map (\<lambda>(k, b). optimizer_writes [(''w'', 0)] ws [7 :: nat, 8, 7] ! b) snapshot
                = map (\<lambda>(k, a). [7, 8] ! a) [(''w'', 0 :: nat)]
            \<and> map (\<lambda>(k, a). h3 ! a) [(''w'', 0 :: nat)] = map (\<lambda>(k, a). [7, 8] ! a) [(''w'', 0 :: nat)]
            \<and> map (\<lambda>(k, b). h3 ! b) snapshot = map (\<lambda>(k, a). [7, 8] ! a) [(''w'', 0 :: nat)]"
    by blast
  from snap(4) [rule_format, of "[(''w'', 5)]"] snap(1-3) show ?thesis
    by blast
qed

section \<open>Annealing\<close>

text \<open>
  C6. For a warmup length \<open>w > 0\<close> the weight is the ramp \<open>min(1, e / w)\<close>: it never
  decreases as the epoch counter grows, it is 1 at \<open>e = w\<close> and stays 1 from there on. For
  a warmup length of zero, or none, the weight is 1 at every epoch.
\<close>

theorem kl_weight_ramp:
  "(0 < w \<and> e1 \<le> e2 \<longrightarrow> kl_weight (Some w) e1 \<le> kl_weight (Some w) e2)
   \<and> (0 < w \<longrightarrow> kl_weight (Some w) e = min 1 (real e / real w))
   \<and> (0 < w \<longrightarrow> kl_weight (Some w) w = 1)
   \<and> (0 < w \<and> w \<le> e \<longrightarrow> kl_weight (Some w) e = 1)
   \<and> kl_weight (Some 0) e = 1
   \<and> kl_weight None e = 1"
proof -
  have mono: "kl_weight (Some w) e1 \<le> kl_weight (Some w) e2" if "0 < w" "e1 \<le> e2"
  proof -
    have "real e1 / real w \<le> real e2 / real w"
      using that by (simp add: divide_right_mono)
    then show ?thesis using that by (simp add: kl_weight_def min_def)
  qed
  have sat: "kl_weight (Some w) e = 1" if "0 < w" "w \<le> e"
    using that by (simp add: kl_weight_def min_def)
  show ?thesis
    using mono sat by (simp add: kl_weight_def)
qed

theorem kl_weight_ramp_witness:
  "(0::nat) < 5 \<and> (1::nat) \<le> 2 \<and> kl_weight (Some 5) 1 \<le> kl_weight (Some 5) 2
   \<and> kl_weight (Some 5) 5 = 1 \<and> kl_weight (Some 5) 7 = 1 \<and> kl_weight (Some 5) 1 = 1 / 5
   \<and> kl_weight (Some 5) 2 \<le> 99 / 100 \<and> 99 / 100 \<le> kl_weight (Some 1) 2"
  using kl_weight_ramp [of 5 1 2 1] kl_weight_ramp [of 5 1 2 7]
    kl_weight_ramp [of 5 1 2 2] kl_weight_ramp [of 1 1 2 2]
  by simp

section \<open>Label resubsampling\<close>

text \<open>
  C7. The hook leaves the trainer's metrics and epoch counter alone and returns nothing; all
  it does is tell the training data loader once to resample its labels. In the loop, every
  epoch begins with that one instruction, before any batch of the epoch is drawn: the
  loader receives, per epoch, one \<open>ResampleLabels\<close> followed by the epoch's
  \<open>NextBatch\<close> calls.
\<close>

theorem SubSampleLabels_once_per_epoch:
  "callback_metrics (SubSampleLabels_on_epoch_start trainer pl_module) = callback_metrics trainer
   \<and> current_epoch (SubSampleLabels_on_epoch_start trainer pl_module) = current_epoch trainer
   \<and> train_dataloader (SubSampleLabels_on_epoch_start trainer pl_module)
       = resample_labels (train_dataloader trainer)
   \<and> calls (train_dataloader (SubSampleLabels_on_epoch_start trainer pl_module))
       = calls (train_dataloader trainer) @ [ResampleLabels]
   \<and> calls (train_dataloader (run_epoch trainer pl_module))
       = calls (train_dataloader trainer)
         @ ResampleLabels # replicate (n_batches (train_dataloader trainer)) NextBatch
   \<and> calls (train_dataloader (run_epochs n trainer pl_module))
       = calls (train_dataloader trainer)
         @ concat (replicate n
             (ResampleLabels # replicate (n_batches (train_dataloader trainer)) NextBatch))"
  by (simp add: calls_run_epochs calls_run_epoch)
     (simp add: SubSampleLabels_on_epoch_start_def resample_labels_def)

section \<open>Construction of SpatialStereoscope\<close>



end
